theory Spec2Isabelle
  imports Main "HOL-Library.Monad_Syntax"
begin

section \<open>The nginx block generator (scripts/generate-nginx-blocks.sh)\<close>

text \<open>
  The script is a sequence of shell function definitions followed by two initialisation
  calls and a \<open>case\<close> on the first argument. It sets neither \<open>-e\<close> nor \<open>pipefail\<close>, so a
  failing command does not stop it, and the status of a function is the status of its
  last command. It is taken to be run by bash, which its \<open>local\<close> declarations and the
  substring expansion \<open>${container_id:0:12}\<close> need.
\<close>

subsection \<open>Configuration constants\<close>

definition NGINX_SITES_AVAILABLE :: string where
  "NGINX_SITES_AVAILABLE = ''/etc/nginx/sites-available''"

definition NGINX_SITES_ENABLED :: string where
  "NGINX_SITES_ENABLED = ''/etc/nginx/sites-enabled''"

definition TEMPLATE_FILE :: string where
  "TEMPLATE_FILE = ''/etc/nginx/templates/challenge.conf.template''"

definition LOG_DIR :: string where
  "LOG_DIR = ''/var/log/nginx/challenges''"

subsection \<open>The template written by \<open>create_template\<close>\<close>

text \<open>
  The here-document of \<open>create_template\<close> is quoted (\<open><< 'EOF'\<close>), so the shell expands
  nothing in it. A file is modelled as the list of its lines, each without its newline.
  The double quote is character 0x22 and the backslash is character 0x5C.
\<close>

definition template_text :: "string list" where
  "template_text =
   [''# Challenge Instance: {challenge_name}'',
    ''# Generated: {timestamp}'',
    ''# Container: {container_id}'',
    '''',
    ''server {'',
    ''    listen 80;'',
    ''    server_name {hostname};'',
    '''',
    ''    # Challenge instance proxy'',
    ''    location / {'',
    ''        proxy_pass http://{container_ip}:{container_port}/;'',
    ''        proxy_http_version 1.1;'',
    ''        proxy_set_header Upgrade $http_upgrade;'',
    ''        proxy_set_header Connection '' @ [CHR 0x22] @ ''upgrade'' @ [CHR 0x22] @ '';'',
    ''        proxy_set_header Host $host;'',
    ''        proxy_set_header X-Real-IP $remote_addr;'',
    ''        proxy_set_header X-Forwarded-For $proxy_add_x_forwarded_for;'',
    ''        proxy_set_header X-Forwarded-Proto $scheme;'',
    ''        '',
    ''        # Timeouts for long-running challenges'',
    ''        proxy_connect_timeout 60s;'',
    ''        proxy_send_timeout 60s;'',
    ''        proxy_read_timeout 60s;'',
    ''        '',
    ''        # WebSocket support'',
    ''        proxy_read_timeout 3600s;'',
    ''        proxy_send_timeout 3600s;'',
    ''    }'',
    '''',
    ''    # Health check endpoint'',
    ''    location /health {'',
    ''        access_log off;'',
    ''        return 200 '' @ [CHR 0x22] @ ''healthy'' @ [CHR 0x5C] @ ''n'' @ [CHR 0x22] @ '';'',
    ''        add_header Content-Type text/plain;'',
    ''    }'',
    '''',
    ''    # Logging'',
    ''    access_log /var/log/nginx/challenges/{hostname}_access.log;'',
    ''    error_log /var/log/nginx/challenges/{hostname}_error.log;'',
    ''}'']"

subsection \<open>The \<open>sed\<close> substitutions of \<open>generate_for_container\<close>\<close>

text \<open>
  Each expression is \<open>s/{placeholder}/VALUE/g\<close> with the value interpolated by the shell
  into the sed script. The six patterns are literal in a basic regular expression (a brace
  is only special as \<open>\{\<close>). In the replacement an unescaped \<open>&\<close> stands for the matched
  text; a slash ends the replacement, a backslash starts an escape and a newline ends the
  command. The model covers the scripts whose values contain no slash, backslash or
  newline (\<open>sed_value_ok\<close>); for any other value the outcome is \<open>None\<close>: the model does
  not say what sed does with that script.
\<close>

fun starts_with :: "string \<Rightarrow> string \<Rightarrow> bool" where
  "starts_with [] s = True"
| "starts_with (p # ps) [] = False"
| "starts_with (p # ps) (c # cs) = (p = c \<and> starts_with ps cs)"

text \<open>The text a replacement inserts for the matched text \<open>m\<close>.\<close>

fun sed_rhs :: "string \<Rightarrow> string \<Rightarrow> string" where
  "sed_rhs m [] = []"
| "sed_rhs m (c # cs) = (if c = CHR ''&'' then m @ sed_rhs m cs else c # sed_rhs m cs)"

text \<open>
  \<open>s/pat/.../g\<close> on one line: matches are found from left to right and do not overlap.
  The third argument holds the characters of a match that are still to be skipped.
\<close>

fun sed_s_g :: "string \<Rightarrow> string \<Rightarrow> string \<Rightarrow> string \<Rightarrow> string" where
  "sed_s_g pat ins skip [] = []"
| "sed_s_g pat ins (k # ks) (c # cs) = sed_s_g pat ins ks cs"
| "sed_s_g pat ins [] (c # cs) =
     (if starts_with pat (c # cs) then ins @ sed_s_g pat ins (tl pat) cs
      else c # sed_s_g pat ins [] cs)"

definition sed_value_ok :: "string \<Rightarrow> bool" where
  "sed_value_ok v = list_all (\<lambda>c. c \<noteq> CHR ''/'' \<and> c \<noteq> CHR 0x5C \<and> c \<noteq> CHR 0x0A) v"

text \<open>All \<open>-e\<close> expressions are applied to a line in the order they are given.\<close>

definition sed_line :: "(string \<times> string) list \<Rightarrow> string \<Rightarrow> string" where
  "sed_line cmds l = fold (\<lambda>(pat, rep) s. sed_s_g pat (sed_rhs pat rep) [] s) cmds l"

definition hostname_of :: "string \<Rightarrow> string" where
  "hostname_of challenge_name = challenge_name @ ''.challenges.ctf.com''"

definition sed_commands ::
  "string \<Rightarrow> string \<Rightarrow> string \<Rightarrow> string \<Rightarrow> string \<Rightarrow> (string \<times> string) list" where
  "sed_commands container_id container_ip container_port challenge_name timestamp =
    [(''{hostname}'', hostname_of challenge_name),
     (''{container_ip}'', container_ip),
     (''{container_port}'', container_port),
     (''{challenge_name}'', challenge_name),
     (''{timestamp}'', timestamp),
     (''{container_id}'', take 12 container_id)]"

text \<open>The output of the sed command on the lines of the template.\<close>

definition render ::
  "string \<Rightarrow> string \<Rightarrow> string \<Rightarrow> string \<Rightarrow> string \<Rightarrow> string list \<Rightarrow> string list option" where
  "render container_id container_ip container_port challenge_name timestamp template =
    (let cmds = sed_commands container_id container_ip container_port challenge_name timestamp
     in if list_all (\<lambda>(pat, rep). sed_value_ok rep) cmds
        then Some (map (sed_line cmds) template) else None)"

text \<open>
  Values that the substitutions copy into the output unchanged: within the modelled
  fragment, without \<open>&\<close> and without an opening brace (so that no later expression
  matches inside an inserted value).
\<close>

definition plain :: "string \<Rightarrow> bool" where
  "plain v = (sed_value_ok v \<and> list_all (\<lambda>c. c \<noteq> CHR ''&'' \<and> c \<noteq> CHR ''{'') v)"

text \<open>
  The template with every placeholder filled in by the given text: what the six
  substitutions are expected to print when each value is copied unchanged.
\<close>

definition filled_template ::
  "string \<Rightarrow> string \<Rightarrow> string \<Rightarrow> string \<Rightarrow> string \<Rightarrow> string \<Rightarrow> string list" where
  "filled_template h ip port name ts c =
   [''# Challenge Instance: '' @ name,
    ''# Generated: '' @ ts,
    ''# Container: '' @ c,
    '''',
    ''server {'',
    ''    listen 80;'',
    ''    server_name '' @ h @ '';'',
    '''',
    ''    # Challenge instance proxy'',
    ''    location / {'',
    ''        proxy_pass http://'' @ ip @ '':'' @ port @ ''/;'',
    ''        proxy_http_version 1.1;'',
    ''        proxy_set_header Upgrade $http_upgrade;'',
    ''        proxy_set_header Connection '' @ [CHR 0x22] @ ''upgrade'' @ [CHR 0x22] @ '';'',
    ''        proxy_set_header Host $host;'',
    ''        proxy_set_header X-Real-IP $remote_addr;'',
    ''        proxy_set_header X-Forwarded-For $proxy_add_x_forwarded_for;'',
    ''        proxy_set_header X-Forwarded-Proto $scheme;'',
    ''        '',
    ''        # Timeouts for long-running challenges'',
    ''        proxy_connect_timeout 60s;'',
    ''        proxy_send_timeout 60s;'',
    ''        proxy_read_timeout 60s;'',
    ''        '',
    ''        # WebSocket support'',
    ''        proxy_read_timeout 3600s;'',
    ''        proxy_send_timeout 3600s;'',
    ''    }'',
    '''',
    ''    # Health check endpoint'',
    ''    location /health {'',
    ''        access_log off;'',
    ''        return 200 '' @ [CHR 0x22] @ ''healthy'' @ [CHR 0x5C] @ ''n'' @ [CHR 0x22] @ '';'',
    ''        add_header Content-Type text/plain;'',
    ''    }'',
    '''',
    ''    # Logging'',
    ''    access_log /var/log/nginx/challenges/'' @ h @ ''_access.log;'',
    ''    error_log /var/log/nginx/challenges/'' @ h @ ''_error.log;'',
    ''}'']"

text \<open>The six substitutions in the script's order, each inserting its value as it is.\<close>

definition six ::
  "string \<Rightarrow> string \<Rightarrow> string \<Rightarrow> string \<Rightarrow> string \<Rightarrow> string \<Rightarrow> string \<Rightarrow> string" where
  "six h ip port name ts c l =
     sed_s_g ''{container_id}'' c [] (sed_s_g ''{timestamp}'' ts []
       (sed_s_g ''{challenge_name}'' name [] (sed_s_g ''{container_port}'' port []
         (sed_s_g ''{container_ip}'' ip [] (sed_s_g ''{hostname}'' h [] l)))))"

subsection \<open>The file system, the proxy and the script's output\<close>

text \<open>
  The file system is a map from absolute path strings to nodes. The script builds every
  path by concatenating a fixed directory, a slash and a file name, so a path is its own
  key. Symbolic links are nodes of their own and the model does not follow them: where
  the real command would have to follow one (a write through a link, a link in the
  place of a directory) the outcome is \<open>None\<close>, the same "not modelled" outcome as for a
  sed script outside the fragment. The script is taken to run with the rights to write
  under the nginx directories.
\<close>

datatype node = Dir | File "string list" | Symlink string

type_synonym filesys = "string \<Rightarrow> node option"

text \<open>
  \<open>reloads\<close> counts the runs of \<open>systemctl reload nginx\<close>; \<open>stdout\<close> is the list of
  lines the script has printed.
\<close>

record world =
  fs :: filesys
  reloads :: nat
  stdout :: "string list"

text \<open>
  What the script reads from its environment: its own name (\<open>$0\<close>), the output of
  \<open>date -Iseconds\<close>, whether \<open>nginx -t\<close> accepts the configuration on disk, and the
  lines of \<open>docker events\<close> up to the end of the stream, each already split by
  \<open>read action container_id\<close>.
\<close>

record env =
  script_name :: string
  date_Iseconds :: string
  nginx_t :: "filesys \<Rightarrow> bool"
  docker_events :: "(string \<times> string) list"

definition dirname :: "string \<Rightarrow> string" where
  "dirname p = rev (tl (dropWhile (\<lambda>c. c \<noteq> CHR ''/'') (rev p)))"

text \<open>The directories \<open>mkdir -p\<close> visits: every proper ancestor below the root, then the path.\<close>

fun path_prefixes :: "string \<Rightarrow> string \<Rightarrow> string list" where
  "path_prefixes acc [] = [acc]"
| "path_prefixes acc (c # cs) =
     (if c = CHR ''/'' \<and> acc \<noteq> [] then acc # path_prefixes (acc @ [c]) cs
      else path_prefixes (acc @ [c]) cs)"

fun mkdirs :: "string list \<Rightarrow> filesys \<Rightarrow> filesys option" where
  "mkdirs [] f = Some f"
| "mkdirs (p # ps) f =
     (case f p of
        None \<Rightarrow> mkdirs ps (f(p \<mapsto> Dir))
      | Some Dir \<Rightarrow> mkdirs ps f
      | Some (File _) \<Rightarrow> Some f
      | Some (Symlink _) \<Rightarrow> None)"

definition mkdir_p :: "string \<Rightarrow> filesys \<Rightarrow> filesys option" where
  "mkdir_p p f = mkdirs (path_prefixes [] p) f"

text \<open>
  \<open>command > p\<close> where the command prints \<open>content\<close>: the shell opens \<open>p\<close> for a truncating
  write before it runs the command. When the open fails (no parent directory, or \<open>p\<close> is
  a directory) the command is not run and nothing changes.
\<close>

definition redirect :: "string \<Rightarrow> string list \<Rightarrow> filesys \<Rightarrow> filesys option" where
  "redirect p content f =
     (case f (dirname p) of
        Some Dir \<Rightarrow>
          (case f p of
             None \<Rightarrow> Some (f(p \<mapsto> File content))
           | Some (File _) \<Rightarrow> Some (f(p \<mapsto> File content))
           | Some Dir \<Rightarrow> Some f
           | Some (Symlink _) \<Rightarrow> None)
      | Some (Symlink _) \<Rightarrow> None
      | _ \<Rightarrow> Some f)"

text \<open>
  The lines a command reads from \<open>p\<close>; a missing file or a directory makes the reader
  print nothing.
\<close>

definition read_lines :: "string \<Rightarrow> filesys \<Rightarrow> string list option" where
  "read_lines p f =
     (case f p of
        Some (File ls) \<Rightarrow> Some ls
      | Some (Symlink _) \<Rightarrow> None
      | _ \<Rightarrow> Some [])"

text \<open>
  \<open>ln -sf target l\<close>: an existing file or link at \<open>l\<close> is replaced. When \<open>l\<close> is a directory,
  or a link that may lead to one, \<open>ln\<close> would create the link inside it: not modelled.
\<close>

definition ln_sf :: "string \<Rightarrow> string \<Rightarrow> filesys \<Rightarrow> filesys option" where
  "ln_sf target l f =
     (case f (dirname l) of
        Some Dir \<Rightarrow>
          (case f l of
             None \<Rightarrow> Some (f(l \<mapsto> Symlink target))
           | Some (File _) \<Rightarrow> Some (f(l \<mapsto> Symlink target))
           | Some (Symlink t) \<Rightarrow>
               (if starts_with ''/'' t
                then (case f t of
                        None \<Rightarrow> Some (f(l \<mapsto> Symlink target))
                      | Some (File _) \<Rightarrow> Some (f(l \<mapsto> Symlink target))
                      | _ \<Rightarrow> None)
                else None)
           | Some Dir \<Rightarrow> None)
      | Some (Symlink _) \<Rightarrow> None
      | _ \<Rightarrow> Some f)"

text \<open>\<open>rm -f p\<close>: removes a file or a link, is silent about a missing one, refuses a directory.\<close>

definition rm_f :: "string \<Rightarrow> filesys \<Rightarrow> filesys option" where
  "rm_f p f =
     (case f (dirname p) of
        Some (Symlink _) \<Rightarrow> None
      | _ \<Rightarrow> (case f p of Some Dir \<Rightarrow> Some f | _ \<Rightarrow> Some (f(p := None))))"

definition echo :: "string \<Rightarrow> world \<Rightarrow> world" where
  "echo l w = w\<lparr>stdout := stdout w @ [l]\<rparr>"

subsection \<open>The functions of the script\<close>

definition ensure_directories :: "world \<Rightarrow> world option" where
  "ensure_directories w = do {
     f1 \<leftarrow> mkdir_p NGINX_SITES_AVAILABLE (fs w);
     f2 \<leftarrow> mkdir_p NGINX_SITES_ENABLED f1;
     f3 \<leftarrow> mkdir_p LOG_DIR f2;
     f4 \<leftarrow> mkdir_p (dirname TEMPLATE_FILE) f3;
     Some (w\<lparr>fs := f4\<rparr>)
   }"

definition create_template :: "world \<Rightarrow> world option" where
  "create_template w = do {
     f1 \<leftarrow> redirect TEMPLATE_FILE template_text (fs w);
     Some (w\<lparr>fs := f1\<rparr>)
   }"

text \<open>A positional parameter that is not set expands to the empty string.\<close>

definition arg :: "string list \<Rightarrow> nat \<Rightarrow> string" where
  "arg args i = (if i < length args then args ! i else [])"

definition conf_path :: "string \<Rightarrow> string \<Rightarrow> string" where
  "conf_path dir hostname = dir @ ''/'' @ hostname @ ''.conf''"

definition generate_for_container :: "env \<Rightarrow> string list \<Rightarrow> world \<Rightarrow> world option" where
  "generate_for_container e args w =
    (let container_id = arg args 0;
         container_ip = arg args 1;
         container_port = arg args 2;
         challenge_name = arg args 3;
         hostname = hostname_of challenge_name;
         conf_file = conf_path NGINX_SITES_AVAILABLE hostname;
         timestamp = date_Iseconds e
     in do {
       template \<leftarrow> read_lines TEMPLATE_FILE (fs w);
       text \<leftarrow> render container_id container_ip container_port challenge_name timestamp template;
       f1 \<leftarrow> redirect conf_file text (fs w);
       f2 \<leftarrow> ln_sf conf_file (conf_path NGINX_SITES_ENABLED hostname) f1;
       Some (echo (''Generated: '' @ hostname @ '' -> '' @ container_ip @ '':'' @ container_port)
               (w\<lparr>fs := f2\<rparr>))
     })"

text \<open>
  A host name with a slash would make the two paths leave their directories; the model
  does not cover it.
\<close>

definition remove_for_hostname :: "string \<Rightarrow> world \<Rightarrow> world option" where
  "remove_for_hostname hostname w =
    (if CHR ''/'' \<in> set hostname then None
     else do {
       f1 \<leftarrow> rm_f (conf_path NGINX_SITES_AVAILABLE hostname) (fs w);
       f2 \<leftarrow> rm_f (conf_path NGINX_SITES_ENABLED hostname) f1;
       Some (echo (''Removed: '' @ hostname) (w\<lparr>fs := f2\<rparr>))
     })"

text \<open>
  \<open>nginx -t && systemctl reload nginx\<close>, then an unconditional \<open>echo\<close>: the function's
  status is that of the \<open>echo\<close>.
\<close>

definition reload_nginx :: "env \<Rightarrow> world \<Rightarrow> world" where
  "reload_nginx e w =
     echo ''Nginx reloaded'' (if nginx_t e (fs w) then w\<lparr>reloads := reloads w + 1\<rparr> else w)"

text \<open>Both lookups are stubs that print an empty line, which the command substitution strips.\<close>

definition get_container_info :: "string \<Rightarrow> string" where
  "get_container_info container_id = []"

definition get_hostname_from_container :: "string \<Rightarrow> string" where
  "get_hostname_from_container container_id = []"

text \<open>
  The unquoted \<open>$container_info\<close> is split into words at blanks, tabs and newlines. A word
  with a glob character would be expanded against the file system: not modelled.
\<close>

fun split_words :: "string \<Rightarrow> string \<Rightarrow> string list" where
  "split_words acc [] = (if acc = [] then [] else [acc])"
| "split_words acc (c # cs) =
     (if c = CHR '' '' \<or> c = CHR 0x09 \<or> c = CHR 0x0A
      then (if acc = [] then split_words [] cs else acc # split_words [] cs)
      else split_words (acc @ [c]) cs)"

definition expand_unquoted :: "string \<Rightarrow> string list option" where
  "expand_unquoted s =
     (if list_ex (\<lambda>c. c = CHR ''*'' \<or> c = CHR ''?'' \<or> c = CHR ''['') s then None
      else Some (split_words [] s))"

definition handle_container_event :: "env \<Rightarrow> string \<Rightarrow> string \<Rightarrow> world \<Rightarrow> world option" where
  "handle_container_event e action container_id w =
    (if action = ''start'' \<or> action = ''create'' then
       (let container_info = get_container_info container_id
        in if container_info \<noteq> [] then do {
             args \<leftarrow> expand_unquoted container_info;
             w1 \<leftarrow> generate_for_container e args w;
             Some (reload_nginx e w1)
           } else Some w)
     else if action = ''stop'' \<or> action = ''die'' then
       (let hostname = get_hostname_from_container container_id
        in if hostname \<noteq> [] then do {
             w1 \<leftarrow> remove_for_hostname hostname w;
             Some (reload_nginx e w1)
           } else Some w)
     else Some w)"

fun watch_loop :: "env \<Rightarrow> (string \<times> string) list \<Rightarrow> world \<Rightarrow> world option" where
  "watch_loop e [] w = Some w"
| "watch_loop e ((action, container_id) # evs) w = do {
     w1 \<leftarrow> handle_container_event e action container_id w;
     watch_loop e evs w1
   }"

definition watch_docker_events :: "env \<Rightarrow> world \<Rightarrow> world option" where
  "watch_docker_events e w = watch_loop e (docker_events e) w"

text \<open>The body of the sweep is commented out in the script; the two \<open>echo\<close>s remain.\<close>

definition sync_all_containers :: "world \<Rightarrow> world" where
  "sync_all_containers w = echo ''Sync complete'' (echo ''Syncing all challenge containers...'' w)"

definition usage :: "env \<Rightarrow> world \<Rightarrow> world" where
  "usage e w = foldl (\<lambda>w l. echo l w) w
     [''Usage: '' @ script_name e @ '' {generate|remove|watch|sync|init}'',
      '''',
      ''Commands:'',
      ''  generate <id> <ip> <port> <name>  - Generate config for a container'',
      ''  remove <hostname>                - Remove config for a hostname'',
      ''  watch                            - Watch Docker events for auto-generation'',
      ''  sync                             - Sync all running containers'',
      ''  init                             - Create template file'']"

text \<open>
  The \<open>case\<close> at the end of the script, on \<open>${1:-help}\<close>. The result is the exit status and
  the world. Every branch but the last ends in an \<open>echo\<close> (or, for \<open>watch\<close>, in a loop
  whose body's status is always 0), so its status is 0.
\<close>

definition dispatch :: "env \<Rightarrow> string list \<Rightarrow> world \<Rightarrow> (nat \<times> world) option" where
  "dispatch e argv w =
    (let cmd = (if arg argv 0 = [] then ''help'' else arg argv 0)
     in if cmd = ''generate'' then do {
            w1 \<leftarrow> generate_for_container e (tl argv) w;
            Some (0, reload_nginx e w1)
          }
        else if cmd = ''remove'' then do {
            w1 \<leftarrow> remove_for_hostname (arg (tl argv) 0) w;
            Some (0, reload_nginx e w1)
          }
        else if cmd = ''watch'' then do {
            w1 \<leftarrow> watch_docker_events e w;
            Some (0, w1)
          }
        else if cmd = ''sync'' then Some (0, sync_all_containers w)
        else if cmd = ''init'' then do {
            w1 \<leftarrow> create_template w;
            Some (0, echo (''Template created at '' @ TEMPLATE_FILE) w1)
          }
        else Some (1, usage e w))"

text \<open>The whole script: the two initialisation calls, then the dispatch.\<close>

definition main :: "env \<Rightarrow> string list \<Rightarrow> world \<Rightarrow> (nat \<times> world) option" where
  "main e argv w = do {
     w1 \<leftarrow> ensure_directories w;
     w2 \<leftarrow> create_template w1;
     dispatch e argv w2
   }"

subsection \<open>Conditions on the file system and observations of a world\<close>

text \<open>
  The directories the script creates, with their ancestors, and the file system in which
  nothing stands in the way of the initialisation: each of these paths is free or a
  directory already, and the template path is free or a regular file.
\<close>

definition script_dirs :: "string list" where
  "script_dirs =
     path_prefixes [] NGINX_SITES_AVAILABLE @ path_prefixes [] NGINX_SITES_ENABLED @
     path_prefixes [] LOG_DIR @ path_prefixes [] (dirname TEMPLATE_FILE)"

definition writable :: "node option \<Rightarrow> bool" where
  "writable n = (case n of None \<Rightarrow> True | Some (File _) \<Rightarrow> True | _ \<Rightarrow> False)"

definition ready :: "filesys \<Rightarrow> bool" where
  "ready f = (list_all (\<lambda>p. f p = None \<or> f p = Some Dir) script_dirs \<and> writable (f TEMPLATE_FILE))"

text \<open>The file system after \<open>ensure_directories\<close> and \<open>create_template\<close> have succeeded.\<close>

definition initialised :: "filesys \<Rightarrow> filesys" where
  "initialised f =
     (\<lambda>p. if p \<in> set script_dirs then Some Dir
          else if p = TEMPLATE_FILE then Some (File template_text)
          else f p)"

text \<open>
  The two paths of a host name can be written: the configuration file is free or a
  regular file, and the enabling reference is free, a regular file, or the link to that
  configuration file which an earlier run of the script has made.
\<close>

definition can_publish :: "filesys \<Rightarrow> string \<Rightarrow> bool" where
  "can_publish f hostname =
     (writable (f (conf_path NGINX_SITES_AVAILABLE hostname)) \<and>
      (case f (conf_path NGINX_SITES_ENABLED hostname) of
         None \<Rightarrow> True
       | Some (File _) \<Rightarrow> True
       | Some (Symlink t) \<Rightarrow> t = conf_path NGINX_SITES_AVAILABLE hostname
       | Some Dir \<Rightarrow> False))"

definition published :: "filesys \<Rightarrow> string \<Rightarrow> string list \<Rightarrow> filesys" where
  "published f hostname text =
     f(conf_path NGINX_SITES_AVAILABLE hostname \<mapsto> File text,
       conf_path NGINX_SITES_ENABLED hostname \<mapsto> Symlink (conf_path NGINX_SITES_AVAILABLE hostname))"

text \<open>What is on disk for a host name, and the number of reloads so far.\<close>

definition route_state :: "string \<Rightarrow> world \<Rightarrow> node option \<times> node option \<times> nat" where
  "route_state hostname w =
     (fs w (conf_path NGINX_SITES_AVAILABLE hostname),
      fs w (conf_path NGINX_SITES_ENABLED hostname),
      reloads w)"

definition empty_world :: world where
  "empty_world = \<lparr>fs = Map.empty, reloads = 0, stdout = []\<rparr>"

text \<open>
  The world that \<open>generate\<close> leaves behind when nothing stands in its way, in terms of
  the world the script was started in.
\<close>

definition generated :: "env \<Rightarrow> string list \<Rightarrow> world \<Rightarrow> world" where
  "generated e args w =
     reload_nginx e
       (echo (''Generated: '' @ hostname_of (arg args 3) @ '' -> '' @ arg args 1 @ '':''
                @ arg args 2)
         (w\<lparr>fs := published (initialised (fs w)) (hostname_of (arg args 3))
            (filled_template (hostname_of (arg args 3)) (arg args 1) (arg args 2) (arg args 3)
               (date_Iseconds e) (take 12 (arg args 0)))\<rparr>))"

text \<open>
  A world in which \<open>web.challenges.ctf.com\<close> is published and enabled for the container
  \<open>aaa111aaa111\<close> at 10.0.0.5:8080, after one reload.
\<close>

definition web_enabled_world :: world where
  "web_enabled_world =
     \<lparr>fs = published (initialised Map.empty) ''web.challenges.ctf.com''
             (filled_template ''web.challenges.ctf.com'' ''10.0.0.5'' ''8080'' ''web''
                ''2026-01-01T00:00:00+00:00'' ''aaa111aaa111''),
      reloads = 1,
      stdout = []\<rparr>"

text \<open>Several runs of the script, one after the other, with the exit status of each.\<close>

fun runs :: "env \<Rightarrow> string list list \<Rightarrow> world \<Rightarrow> (nat list \<times> world) option" where
  "runs e [] w = Some ([], w)"
| "runs e (argv # rest) w = do {
     (st, w1) \<leftarrow> main e argv w;
     (sts, w2) \<leftarrow> runs e rest w1;
     Some (st # sts, w2)
   }"

text \<open>An environment for the examples: a clock value, and an nginx that accepts any
  configuration (\<open>accept_all\<close>) or none (\<open>reject_all\<close>).\<close>

definition accept_all :: "filesys \<Rightarrow> bool" where
  "accept_all f = True"


definition example_env :: env where
  "example_env = \<lparr>script_name = ''generate-nginx-blocks.sh'',
                   date_Iseconds = ''2026-01-01T00:00:00+00:00'',
                   nginx_t = accept_all,
                   docker_events = []\<rparr>"

section \<open>The terminal drawer (WebSocket client of the terminal bridge)\<close>

text \<open>
  A WebSocket message is a text frame or a binary frame. \<open>WebSocket.send\<close> transmits a
  text frame when it is given a string, and a binary frame when it is given a Blob or
  an ArrayBuffer. The socket's \<open>binaryType\<close> is left at its default, so a binary frame
  arrives as a Blob and a text frame as a string.
\<close>

datatype frame = TextFrame string | BinaryFrame string

datatype ready_state = CONNECTING | OPEN | CLOSING | CLOSED

fun decimal :: "nat \<Rightarrow> string" where
  "decimal n =
     (if n < 10 then [char_of (48 + n)] else decimal (n div 10) @ [char_of (48 + n mod 10)])"

text \<open>\<open>JSON.stringify({type: "resize", cols, rows})\<close> for two non-negative integers.\<close>

definition resize_json :: "nat \<Rightarrow> nat \<Rightarrow> string" where
  "resize_json cols rows =
     ''{'' @ [CHR 0x22] @ ''type'' @ [CHR 0x22] @ '':'' @ [CHR 0x22] @ ''resize'' @ [CHR 0x22]
     @ '','' @ [CHR 0x22] @ ''cols'' @ [CHR 0x22] @ '':'' @ decimal cols
     @ '','' @ [CHR 0x22] @ ''rows'' @ [CHR 0x22] @ '':'' @ decimal rows @ ''}''"

text \<open>\<open>ws.onopen\<close>: the initial resize, with the terminal's dimensions.\<close>

definition onopen :: "nat \<Rightarrow> nat \<Rightarrow> frame list" where
  "onopen cols rows = [TextFrame (resize_json cols rows)]"

text \<open>\<open>handleResize\<close>: \<open>wsRef.current\<close> may be null; the message is sent on an open socket only.\<close>

definition handleResize :: "ready_state option \<Rightarrow> nat \<Rightarrow> nat \<Rightarrow> frame list" where
  "handleResize ws cols rows =
     (if ws = Some OPEN then [TextFrame (resize_json cols rows)] else [])"

text \<open>The terminal's \<open>onData\<close> handler: the keystrokes are a string, passed to \<open>ws.send\<close>.\<close>

definition onData :: "ready_state \<Rightarrow> string \<Rightarrow> frame list" where
  "onData readyState data = (if readyState = OPEN then [TextFrame data] else [])"

datatype json = JNull | JBool bool | JNumber int | JString string
  | JArray "json list" | JObject "(string \<times> json) list"

text \<open>Reading a property: of an object the last binding of the key, of any other value nothing.\<close>

fun property :: "json \<Rightarrow> string \<Rightarrow> json option" where
  "property (JObject kvs) k = map_of (rev kvs) k"
| "property v k = None"

datatype term_write = Write string | Writeln string

text \<open>
  \<open>ws.onmessage\<close>, as the writes it makes to the terminal. \<open>JSON_parse\<close> is the browser's
  parser (\<open>None\<close> when it throws) and \<open>to_string\<close> the conversion a template literal applies
  to a value that is not a string. Reading \<open>msg.type\<close> of \<open>null\<close> throws inside the same
  \<open>try\<close>, so \<open>null\<close> ends in the \<open>catch\<close> branch as unparsable text does.
\<close>

definition onmessage ::
  "(string \<Rightarrow> json option) \<Rightarrow> (json \<Rightarrow> string) \<Rightarrow> frame \<Rightarrow> term_write list" where
  "onmessage JSON_parse to_string fr =
     (case fr of
        BinaryFrame data \<Rightarrow> [Write data]
      | TextFrame data \<Rightarrow>
          (case JSON_parse data of
             None \<Rightarrow> [Write data]
           | Some JNull \<Rightarrow> [Write data]
           | Some msg \<Rightarrow>
               (if property msg ''type'' = Some (JString ''error'')
                then [Writeln ([CHR 0x1B] @ ''[31mError: '' @
                        (case property msg ''message'' of
                           None \<Rightarrow> ''undefined''
                         | Some (JString m) \<Rightarrow> m
                         | Some v \<Rightarrow> to_string v)
                        @ [CHR 0x1B] @ ''[0m'')]
                else [])))"

fun is_text :: "frame \<Rightarrow> bool" where
  "is_text (TextFrame s) = True"
| "is_text (BinaryFrame b) = False"

fun is_binary :: "frame \<Rightarrow> bool" where
  "is_binary (TextFrame s) = False"
| "is_binary (BinaryFrame b) = True"

section \<open>Properties of the substitutions\<close>

lemma sed_rhs_plain: "CHR ''&'' \<notin> set v \<Longrightarrow> sed_rhs m v = v"
  by (induction v) auto

lemma sed_s_g_nobrace_append:
  "CHR ''{'' \<notin> set s \<Longrightarrow>
   sed_s_g (CHR ''{'' # p) ins [] (s @ t) = s @ sed_s_g (CHR ''{'' # p) ins [] t"
  by (induction s) auto

lemma sed_s_g_nobrace:
  "CHR ''{'' \<notin> set s \<Longrightarrow> sed_s_g (CHR ''{'' # p) ins [] s = s"
  by (induction s) auto

lemma sed_line_six:
  assumes "CHR ''&'' \<notin> set h" "CHR ''&'' \<notin> set ip" "CHR ''&'' \<notin> set port"
    "CHR ''&'' \<notin> set name" "CHR ''&'' \<notin> set ts" "CHR ''&'' \<notin> set c"
  shows "sed_line [(''{hostname}'', h), (''{container_ip}'', ip), (''{container_port}'', port),
     (''{challenge_name}'', name), (''{timestamp}'', ts), (''{container_id}'', c)] l
     = six h ip port name ts c l"
  using assms by (simp add: sed_line_def six_def sed_rhs_plain)

lemma six_lines:
  assumes "CHR ''{'' \<notin> set h" "CHR ''{'' \<notin> set ip" "CHR ''{'' \<notin> set port"
    "CHR ''{'' \<notin> set name" "CHR ''{'' \<notin> set ts" "CHR ''{'' \<notin> set c"
  shows "six h ip port name ts c ''# Challenge Instance: {challenge_name}''
           = ''# Challenge Instance: '' @ name"
    and "six h ip port name ts c ''# Generated: {timestamp}'' = ''# Generated: '' @ ts"
    and "six h ip port name ts c ''# Container: {container_id}'' = ''# Container: '' @ c"
    and "six h ip port name ts c ''    server_name {hostname};''
           = ''    server_name '' @ h @ '';''"
    and "six h ip port name ts c ''        proxy_pass http://{container_ip}:{container_port}/;''
           = ''        proxy_pass http://'' @ ip @ '':'' @ port @ ''/;''"
    and "six h ip port name ts c ''    access_log /var/log/nginx/challenges/{hostname}_access.log;''
           = ''    access_log /var/log/nginx/challenges/'' @ h @ ''_access.log;''"
    and "six h ip port name ts c ''    error_log /var/log/nginx/challenges/{hostname}_error.log;''
           = ''    error_log /var/log/nginx/challenges/'' @ h @ ''_error.log;''"
  using assms by (simp_all add: six_def sed_s_g_nobrace_append sed_s_g_nobrace)

lemma six_nobrace: "CHR ''{'' \<notin> set l \<Longrightarrow> six h ip port name ts c l = l"
  by (simp add: six_def sed_s_g_nobrace)

lemma six_open_brace:
  "CHR ''{'' \<notin> set l \<Longrightarrow> six h ip port name ts c (l @ ''{'') = l @ ''{''"
  by (simp add: six_def sed_s_g_nobrace_append)

lemma six_template:
  assumes "CHR ''{'' \<notin> set h" "CHR ''{'' \<notin> set ip" "CHR ''{'' \<notin> set port"
    "CHR ''{'' \<notin> set name" "CHR ''{'' \<notin> set ts" "CHR ''{'' \<notin> set c"
  shows "map (six h ip port name ts c) template_text = filled_template h ip port name ts c"
proof -
  have braces:
    "six h ip port name ts c ''server {'' = ''server {''"
    "six h ip port name ts c ''    location / {'' = ''    location / {''"
    "six h ip port name ts c ''    location /health {'' = ''    location /health {''"
    using six_open_brace[of "''server ''"] six_open_brace[of "''    location / ''"]
      six_open_brace[of "''    location /health ''"]
    by simp_all
  show ?thesis
    unfolding template_text_def filled_template_def list.map six_lines[OF assms] braces
    by (simp add: six_nobrace)
qed

section \<open>Properties of the file operations\<close>

lemma dirname_conf_path:
  assumes "CHR ''/'' \<notin> set hostname"
  shows "dirname (conf_path d hostname) = d"
proof -
  let ?P = "\<lambda>c. c \<noteq> CHR ''/''"
  have "rev (conf_path d hostname) = ''fnoc.'' @ (rev hostname @ CHR ''/'' # rev d)"
    by (simp add: conf_path_def)
  moreover have "dropWhile ?P (''fnoc.'' @ t) = dropWhile ?P t" for t
    by simp
  moreover have "dropWhile ?P (rev hostname @ t) = dropWhile ?P t" for t
    using assms by (intro dropWhile_append2) auto
  ultimately have "dropWhile ?P (rev (conf_path d hostname)) = CHR ''/'' # rev d"
    by simp
  then show ?thesis
    by (simp add: dirname_def)
qed

lemma script_dirs_eq:
  "script_dirs =
    [''/etc'', ''/etc/nginx'', ''/etc/nginx/sites-available'',
     ''/etc'', ''/etc/nginx'', ''/etc/nginx/sites-enabled'',
     ''/var'', ''/var/log'', ''/var/log/nginx'', ''/var/log/nginx/challenges'',
     ''/etc'', ''/etc/nginx'', ''/etc/nginx/templates'']"
  by (simp add: script_dirs_def NGINX_SITES_AVAILABLE_def NGINX_SITES_ENABLED_def LOG_DIR_def
      TEMPLATE_FILE_def dirname_def)

lemma mkdirs_free:
  "list_all (\<lambda>p. f p = None \<or> f p = Some Dir) ps \<Longrightarrow>
   mkdirs ps f = Some (\<lambda>q. if q \<in> set ps then Some Dir else f q)"
proof (induction ps arbitrary: f)
  case Nil
  then show ?case by simp
next
  case (Cons p ps)
  from Cons.prems have p: "f p = None \<or> f p = Some Dir"
    and ps: "list_all (\<lambda>p. f p = None \<or> f p = Some Dir) ps" by simp_all
  show ?case
  proof (cases "f p")
    case None
    have "list_all (\<lambda>q. (f(p \<mapsto> Dir)) q = None \<or> (f(p \<mapsto> Dir)) q = Some Dir) ps"
      using ps by (simp add: list_all_iff)
    from Cons.IH[OF this] have "mkdirs ps (f(p \<mapsto> Dir))
        = Some (\<lambda>q. if q \<in> set ps then Some Dir else (f(p \<mapsto> Dir)) q)" .
    moreover have "(\<lambda>q. if q \<in> set ps then Some Dir else (f(p \<mapsto> Dir)) q)
        = (\<lambda>q. if q \<in> set (p # ps) then Some Dir else f q)"
      by (auto simp: fun_eq_iff)
    ultimately show ?thesis using None by simp
  next
    case (Some n)
    with p have "f p = Some Dir" by simp
    then have "(\<lambda>q. if q \<in> set ps then Some Dir else f q)
        = (\<lambda>q. if q \<in> set (p # ps) then Some Dir else f q)"
      by (auto simp: fun_eq_iff)
    with Cons.IH[OF ps] \<open>f p = Some Dir\<close> show ?thesis by simp
  qed
qed

lemma mkdirs_over:
  assumes "list_all (\<lambda>p. f p = None \<or> f p = Some Dir) ps"
  shows "mkdirs ps (\<lambda>q. if q \<in> S then Some Dir else f q)
           = Some (\<lambda>q. if q \<in> S \<union> set ps then Some Dir else f q)"
proof -
  let ?g = "\<lambda>q. if q \<in> S then Some Dir else f q"
  have "list_all (\<lambda>p. ?g p = None \<or> ?g p = Some Dir) ps"
    using assms by (simp add: list_all_iff)
  then have "mkdirs ps ?g = Some (\<lambda>q. if q \<in> set ps then Some Dir else ?g q)"
    by (rule mkdirs_free)
  moreover have "(\<lambda>q. if q \<in> set ps then Some Dir else ?g q)
      = (\<lambda>q. if q \<in> S \<union> set ps then Some Dir else f q)"
    by (auto simp: fun_eq_iff)
  ultimately show ?thesis by simp
qed

lemma ensure_directories_ready:
  assumes "ready (fs w)"
  shows "ensure_directories w
           = Some (w\<lparr>fs := \<lambda>q. if q \<in> set script_dirs then Some Dir else fs w q\<rparr>)"
proof -
  let ?free = "list_all (\<lambda>p. fs w p = None \<or> fs w p = Some Dir)"
  let ?p1 = "path_prefixes [] NGINX_SITES_AVAILABLE"
  let ?p2 = "path_prefixes [] NGINX_SITES_ENABLED"
  let ?p3 = "path_prefixes [] LOG_DIR"
  let ?p4 = "path_prefixes [] (dirname TEMPLATE_FILE)"
  from assms have free: "?free ?p1" "?free ?p2" "?free ?p3" "?free ?p4"
    by (simp_all add: ready_def script_dirs_def)
  have 1: "mkdirs ?p1 (fs w) = Some (\<lambda>q. if q \<in> set ?p1 then Some Dir else fs w q)"
    by (rule mkdirs_free[OF free(1)])
  note 2 = mkdirs_over[OF free(2), of "set ?p1"]
  note 3 = mkdirs_over[OF free(3), of "set ?p1 \<union> set ?p2"]
  note 4 = mkdirs_over[OF free(4), of "set ?p1 \<union> set ?p2 \<union> set ?p3"]
  have 5: "set ?p1 \<union> set ?p2 \<union> set ?p3 \<union> set ?p4 = set script_dirs"
    by (simp add: script_dirs_def Un_assoc)
  show ?thesis
    by (simp only: ensure_directories_def mkdir_p_def 1 2 3 4 5 Option.bind.simps)
qed

lemma template_not_dir: "TEMPLATE_FILE \<notin> set script_dirs"
  by (simp add: script_dirs_eq TEMPLATE_FILE_def)

lemma template_dir: "dirname TEMPLATE_FILE \<in> set script_dirs"
  by (simp add: script_dirs_eq TEMPLATE_FILE_def dirname_def)

lemma init_ready:
  assumes "ready (fs w)"
  shows "ensure_directories w \<bind> create_template = Some (w\<lparr>fs := initialised (fs w)\<rparr>)"
proof -
  let ?f1 = "\<lambda>q. if q \<in> set script_dirs then Some Dir else fs w q"
  from assms have wr: "writable (fs w TEMPLATE_FILE)"
    by (simp add: ready_def)
  have "?f1(TEMPLATE_FILE \<mapsto> File template_text) = initialised (fs w)"
    using template_not_dir by (auto simp: fun_eq_iff initialised_def)
  moreover have "redirect TEMPLATE_FILE template_text ?f1
      = Some (?f1(TEMPLATE_FILE \<mapsto> File template_text))"
    using wr template_not_dir template_dir
    by (auto simp: redirect_def writable_def split: option.splits node.splits)
  ultimately show ?thesis
    by (simp add: ensure_directories_ready[OF assms] create_template_def)
qed

lemma main_ready:
  "ready (fs w) \<Longrightarrow> main e argv w = dispatch e argv (w\<lparr>fs := initialised (fs w)\<rparr>)"
  using init_ready[of w] by (auto simp: main_def split: bind_splits)

section \<open>Properties of \<open>generate_for_container\<close>\<close>


lemma plain_ok: "plain v \<Longrightarrow> sed_value_ok v"
  by (simp add: plain_def)

lemma plain_amp: "plain v \<Longrightarrow> CHR ''&'' \<notin> set v"
  unfolding plain_def list_all_iff by blast

lemma plain_brace: "plain v \<Longrightarrow> CHR ''{'' \<notin> set v"
  unfolding plain_def list_all_iff by blast

lemma plain_slash: "plain v \<Longrightarrow> CHR ''/'' \<notin> set v"
  unfolding plain_def sed_value_ok_def list_all_iff by blast

lemma list_all_take: "list_all P xs \<Longrightarrow> list_all P (take n xs)"
  unfolding list_all_iff by (meson in_set_takeD)

lemma plain_take: "plain v \<Longrightarrow> plain (take n v)"
  unfolding plain_def sed_value_ok_def by (intro conjI list_all_take) simp_all

lemma plain_hostname_of: "plain v \<Longrightarrow> plain (hostname_of v)"
  by (simp add: plain_def sed_value_ok_def hostname_of_def)

lemma sed_line_six_fun:
  assumes "CHR ''&'' \<notin> set h" "CHR ''&'' \<notin> set ip" "CHR ''&'' \<notin> set port"
    "CHR ''&'' \<notin> set name" "CHR ''&'' \<notin> set ts" "CHR ''&'' \<notin> set c"
  shows "sed_line [(''{hostname}'', h), (''{container_ip}'', ip), (''{container_port}'', port),
     (''{challenge_name}'', name), (''{timestamp}'', ts), (''{container_id}'', c)]
     = six h ip port name ts c"
  by (rule ext) (rule sed_line_six[OF assms])

lemma render_plain:
  assumes "plain cid" "plain ip" "plain port" "plain name" "plain ts"
  shows "render cid ip port name ts template_text
           = Some (filled_template (hostname_of name) ip port name ts (take 12 cid))"
proof -
  have ok: "list_all (\<lambda>(pat, rep). sed_value_ok rep) (sed_commands cid ip port name ts)"
    by (simp add: sed_commands_def plain_ok plain_take plain_hostname_of assms)
  have "sed_line (sed_commands cid ip port name ts)
      = six (hostname_of name) ip port name ts (take 12 cid)"
    unfolding sed_commands_def
    by (intro sed_line_six_fun plain_amp plain_hostname_of plain_take assms)
  moreover have "map (six (hostname_of name) ip port name ts (take 12 cid)) template_text
      = filled_template (hostname_of name) ip port name ts (take 12 cid)"
    by (intro six_template plain_brace plain_hostname_of plain_take assms)
  ultimately show ?thesis
    using ok by (simp add: render_def)
qed

lemma conf_path_distinct:
  "conf_path NGINX_SITES_AVAILABLE h \<notin> set script_dirs"
  "conf_path NGINX_SITES_ENABLED h \<notin> set script_dirs"
  "conf_path NGINX_SITES_AVAILABLE h \<noteq> TEMPLATE_FILE"
  "conf_path NGINX_SITES_ENABLED h \<noteq> TEMPLATE_FILE"
  "conf_path NGINX_SITES_ENABLED h \<noteq> conf_path NGINX_SITES_AVAILABLE h'"
  "conf_path NGINX_SITES_AVAILABLE h \<noteq> conf_path NGINX_SITES_ENABLED h'"
  "NGINX_SITES_ENABLED \<noteq> conf_path NGINX_SITES_AVAILABLE h"
  "NGINX_SITES_AVAILABLE \<noteq> conf_path NGINX_SITES_AVAILABLE h"
  "NGINX_SITES_ENABLED \<noteq> conf_path NGINX_SITES_ENABLED h"
  by (simp_all add: conf_path_def script_dirs_eq NGINX_SITES_AVAILABLE_def
      NGINX_SITES_ENABLED_def TEMPLATE_FILE_def)

lemma sites_are_dirs:
  "NGINX_SITES_AVAILABLE \<in> set script_dirs" "NGINX_SITES_ENABLED \<in> set script_dirs"
  "LOG_DIR \<in> set script_dirs"
  by (simp_all add: script_dirs_eq NGINX_SITES_AVAILABLE_def NGINX_SITES_ENABLED_def LOG_DIR_def)

lemma publish_initialised:
  assumes "CHR ''/'' \<notin> set h" and "can_publish f h"
  shows "redirect (conf_path NGINX_SITES_AVAILABLE h) text (initialised f)
           = Some ((initialised f)(conf_path NGINX_SITES_AVAILABLE h \<mapsto> File text))"
    and "ln_sf (conf_path NGINX_SITES_AVAILABLE h) (conf_path NGINX_SITES_ENABLED h)
           ((initialised f)(conf_path NGINX_SITES_AVAILABLE h \<mapsto> File text))
           = Some (published (initialised f) h text)"
proof -
  let ?conf = "conf_path NGINX_SITES_AVAILABLE h"
  let ?link = "conf_path NGINX_SITES_ENABLED h"
  let ?f1 = "(initialised f)(?conf \<mapsto> File text)"
  have conf: "initialised f ?conf = f ?conf" and link: "initialised f ?link = f ?link"
    by (simp_all add: initialised_def conf_path_distinct)
  have dirs: "initialised f NGINX_SITES_AVAILABLE = Some Dir"
    "initialised f NGINX_SITES_ENABLED = Some Dir"
    by (simp_all add: initialised_def sites_are_dirs)
  show "redirect ?conf text (initialised f) = Some ?f1"
    using assms(2) dirs
    by (auto simp: redirect_def dirname_conf_path[OF assms(1)] conf can_publish_def writable_def
        split: option.splits node.splits)
  have "starts_with ''/'' ?conf"
    by (simp add: conf_path_def NGINX_SITES_AVAILABLE_def)
  then have "ln_sf ?conf ?link ?f1 = Some (?f1(?link \<mapsto> Symlink ?conf))"
    using assms(2) dirs
    by (auto simp: ln_sf_def dirname_conf_path[OF assms(1)] link can_publish_def conf_path_distinct
        split: option.splits node.splits)
  then show "ln_sf ?conf ?link ?f1 = Some (published (initialised f) h text)"
    by (simp add: published_def)
qed

lemma generate_initialised:
  assumes "plain (arg args 0)" "plain (arg args 1)" "plain (arg args 2)" "plain (arg args 3)"
    and "plain (date_Iseconds e)"
    and "can_publish f (hostname_of (arg args 3))"
    and "fs w = initialised f"
  shows "generate_for_container e args w =
     Some (echo (''Generated: '' @ hostname_of (arg args 3) @ '' -> '' @ arg args 1 @ '':''
                   @ arg args 2)
       (w\<lparr>fs := published (initialised f) (hostname_of (arg args 3))
          (filled_template (hostname_of (arg args 3)) (arg args 1) (arg args 2) (arg args 3)
             (date_Iseconds e) (take 12 (arg args 0)))\<rparr>))"
proof -
  have "read_lines TEMPLATE_FILE (fs w) = Some template_text"
    by (simp add: read_lines_def assms(7) initialised_def template_not_dir)
  moreover note render_plain[OF assms(1-5)]
  moreover have "CHR ''/'' \<notin> set (hostname_of (arg args 3))"
    by (rule plain_slash[OF plain_hostname_of[OF assms(4)]])
  note publish_initialised[OF this assms(6)]
  ultimately show ?thesis
    by (simp add: generate_for_container_def Let_def assms(7))
qed

section \<open>Properties of the whole script\<close>

lemma echo_simps [simp]:
  "fs (echo l w) = fs w" "reloads (echo l w) = reloads w" "stdout (echo l w) = stdout w @ [l]"
  by (simp_all add: echo_def)

lemma reload_nginx_simps [simp]:
  "fs (reload_nginx e w) = fs w"
  "reloads (reload_nginx e w) = (if nginx_t e (fs w) then reloads w + 1 else reloads w)"
  "stdout (reload_nginx e w) = stdout w @ [''Nginx reloaded'']"
  by (simp_all add: reload_nginx_def)

lemma main_generate:
  assumes "ready (fs w)" and "can_publish (fs w) (hostname_of (arg args 3))"
    and "plain (arg args 0)" "plain (arg args 1)" "plain (arg args 2)" "plain (arg args 3)"
    and "plain (date_Iseconds e)"
  shows "main e (''generate'' # args) w = Some (0, generated e args w)"
proof -
  have "fs (w\<lparr>fs := initialised (fs w)\<rparr>) = initialised (fs w)"
    by simp
  note generate_initialised[OF assms(3-7) assms(2) this]
  then show ?thesis
    by (simp add: main_ready[OF assms(1)] dispatch_def arg_def generated_def)
qed

lemma ready_empty: "ready Map.empty"
  by (simp add: ready_def writable_def list_all_iff)

lemma ready_published: "ready (published (initialised f) h text)"
proof -
  have "published (initialised f) h text p = Some Dir" if "p \<in> set script_dirs" for p
    using that conf_path_distinct(1,2)[of h]
    by (auto simp: published_def initialised_def)
  moreover have "published (initialised f) h text TEMPLATE_FILE = Some (File template_text)"
    using conf_path_distinct(3,4)[of h] template_not_dir
    by (auto simp: published_def initialised_def)
  ultimately show ?thesis
    by (simp add: ready_def writable_def list_all_iff)
qed

lemma can_publish_published: "can_publish (published g h text) h"
  by (simp add: can_publish_def published_def writable_def conf_path_distinct)

lemma can_publish_empty: "can_publish Map.empty h"
  by (simp add: can_publish_def writable_def)

section \<open>The claims\<close>

text \<open>
  C10. Every invocation of the script, whatever its arguments, first creates the sites,
  log and template directories and writes the template to its canonical path, and only
  then dispatches on the command: the template is written for every command, not only for
  \<open>init\<close>. (The file system must not block the initialisation: \<open>ready\<close>.)
\<close>

theorem main_initialises_before_dispatch:
  assumes "ready (fs w)"
  shows "\<exists>w1. ensure_directories w \<bind> create_template = Some w1
          \<and> fs w1 NGINX_SITES_AVAILABLE = Some Dir
          \<and> fs w1 NGINX_SITES_ENABLED = Some Dir
          \<and> fs w1 LOG_DIR = Some Dir
          \<and> fs w1 (dirname TEMPLATE_FILE) = Some Dir
          \<and> fs w1 TEMPLATE_FILE = Some (File template_text)
          \<and> main e argv w = dispatch e argv w1"
  using init_ready[OF assms] main_ready[OF assms, of e argv]
  by (simp add: initialised_def sites_are_dirs template_dir template_not_dir)

theorem main_initialises_before_dispatch_witness:
  "ready (fs empty_world)
   \<and> (\<exists>w1. ensure_directories empty_world \<bind> create_template = Some w1
          \<and> fs w1 NGINX_SITES_AVAILABLE = Some Dir
          \<and> fs w1 NGINX_SITES_ENABLED = Some Dir
          \<and> fs w1 LOG_DIR = Some Dir
          \<and> fs w1 (dirname TEMPLATE_FILE) = Some Dir
          \<and> fs w1 TEMPLATE_FILE = Some (File template_text)
          \<and> main example_env [''sync''] empty_world = dispatch example_env [''sync''] w1)"
proof -
  have r: "ready (fs empty_world)"
    by (simp add: empty_world_def ready_empty)
  from main_initialises_before_dispatch[OF r, of example_env "[''sync'']"] r
  show ?thesis by blast
qed

text \<open>
  C2 (as amended). The host name that \<open>generate_for_container\<close> derives for an instance,
  and reports when it is done, is the challenge name followed by \<open>.challenges.ctf.com\<close>.
  No owner enters it: two instances have different host names exactly when their
  challenge names differ.
\<close>

theorem hostname_of_challenge_name_only:
  assumes "generate_for_container e args w = Some w'"
  shows "last (stdout w')
           = ''Generated: '' @ arg args 3 @ ''.challenges.ctf.com -> '' @ arg args 1 @ '':''
              @ arg args 2
     \<and> hostname_of (arg args 3) = arg args 3 @ ''.challenges.ctf.com''
     \<and> (hostname_of a = hostname_of b) = (a = b)"
proof -
  from assms obtain f where "w' = echo (''Generated: '' @ hostname_of (arg args 3) @ '' -> ''
      @ arg args 1 @ '':'' @ arg args 2) (w\<lparr>fs := f\<rparr>)"
    by (auto simp: generate_for_container_def Let_def split: bind_splits)
  then show ?thesis
    by (simp add: hostname_of_def)
qed

theorem hostname_of_challenge_name_only_witness:
  "generate_for_container example_env [''bbb222bbb222'', ''10.0.0.9'', ''8080'', ''web'']
     (empty_world\<lparr>fs := initialised Map.empty\<rparr>)
     = Some (echo ''Generated: web.challenges.ctf.com -> 10.0.0.9:8080''
         (empty_world\<lparr>fs := published (initialised Map.empty) ''web.challenges.ctf.com''
            (filled_template ''web.challenges.ctf.com'' ''10.0.0.9'' ''8080'' ''web''
               ''2026-01-01T00:00:00+00:00'' ''bbb222bbb222'')\<rparr>))
   \<and> last (stdout (echo ''Generated: web.challenges.ctf.com -> 10.0.0.9:8080''
         (empty_world\<lparr>fs := published (initialised Map.empty) ''web.challenges.ctf.com''
            (filled_template ''web.challenges.ctf.com'' ''10.0.0.9'' ''8080'' ''web''
               ''2026-01-01T00:00:00+00:00'' ''bbb222bbb222'')\<rparr>)))
       = ''Generated: web.challenges.ctf.com -> 10.0.0.9:8080''
   \<and> hostname_of ''web'' = ''web.challenges.ctf.com''"
proof -
  let ?A = "[''bbb222bbb222'', ''10.0.0.9'', ''8080'', ''web'']"
  let ?w = "empty_world\<lparr>fs := initialised Map.empty\<rparr>"
  have p: "plain (arg ?A 0)" "plain (arg ?A 1)" "plain (arg ?A 2)" "plain (arg ?A 3)"
    "plain (date_Iseconds example_env)"
    by (simp_all add: arg_def plain_def sed_value_ok_def example_env_def)
  have "generate_for_container example_env ?A ?w =
     Some (echo (''Generated: '' @ hostname_of (arg ?A 3) @ '' -> '' @ arg ?A 1 @ '':''
                   @ arg ?A 2)
       (?w\<lparr>fs := published (initialised Map.empty) (hostname_of (arg ?A 3))
          (filled_template (hostname_of (arg ?A 3)) (arg ?A 1) (arg ?A 2) (arg ?A 3)
             (date_Iseconds example_env) (take 12 (arg ?A 0)))\<rparr>))"
    using p by (rule generate_initialised) (simp_all add: can_publish_empty)
  then have g: "generate_for_container example_env ?A ?w
     = Some (echo ''Generated: web.challenges.ctf.com -> 10.0.0.9:8080''
         (empty_world\<lparr>fs := published (initialised Map.empty) ''web.challenges.ctf.com''
            (filled_template ''web.challenges.ctf.com'' ''10.0.0.9'' ''8080'' ''web''
               ''2026-01-01T00:00:00+00:00'' ''bbb222bbb222'')\<rparr>))"
    by (simp add: arg_def hostname_of_def example_env_def)
  from hostname_of_challenge_name_only[OF g] g show ?thesis
    by (simp add: arg_def)
qed

text \<open>
  Counterexample to C2 as stated: the containers of two owners that run the challenge
  \<open>web\<close> are both published under \<open>web.challenges.ctf.com\<close>.
\<close>

theorem hostname_same_for_two_owners:
  "map_option (stdout \<circ> snd)
     (main example_env [''generate'', ''aaa111aaa111'', ''10.0.0.5'', ''8080'', ''web''] empty_world)
     = Some [''Generated: web.challenges.ctf.com -> 10.0.0.5:8080'', ''Nginx reloaded'']
   \<and> map_option (stdout \<circ> snd)
     (main example_env [''generate'', ''bbb222bbb222'', ''10.0.0.9'', ''8080'', ''web''] empty_world)
     = Some [''Generated: web.challenges.ctf.com -> 10.0.0.9:8080'', ''Nginx reloaded'']"
proof -
  have p: "plain ''aaa111aaa111''" "plain ''bbb222bbb222''" "plain ''10.0.0.5''" "plain ''10.0.0.9''"
    "plain ''8080''" "plain ''web''" "plain (date_Iseconds example_env)"
    by (simp_all add: plain_def sed_value_ok_def example_env_def)
  have r: "ready (fs empty_world)" "can_publish (fs empty_world) (hostname_of ''web'')"
    by (simp_all add: empty_world_def ready_empty can_publish_empty)
  have "main example_env [''generate'', ''aaa111aaa111'', ''10.0.0.5'', ''8080'', ''web''] empty_world
      = Some (0, generated example_env [''aaa111aaa111'', ''10.0.0.5'', ''8080'', ''web''] empty_world)"
    using p r by (intro main_generate) (simp_all add: arg_def)
  moreover have "main example_env [''generate'', ''bbb222bbb222'', ''10.0.0.9'', ''8080'', ''web''] empty_world
      = Some (0, generated example_env [''bbb222bbb222'', ''10.0.0.9'', ''8080'', ''web''] empty_world)"
    using p r by (intro main_generate) (simp_all add: arg_def)
  ultimately show ?thesis
    by (simp add: generated_def empty_world_def arg_def hostname_of_def)
qed

section \<open>Observations of the world after \<open>generate\<close>\<close>

lemma fs_generated:
  "fs (generated e args w) = published (initialised (fs w)) (hostname_of (arg args 3))
     (filled_template (hostname_of (arg args 3)) (arg args 1) (arg args 2) (arg args 3)
        (date_Iseconds e) (take 12 (arg args 0)))"
  by (simp add: generated_def)

lemma reloads_generated:
  "reloads (generated e args w)
     = (if nginx_t e (fs (generated e args w)) then reloads w + 1 else reloads w)"
  by (simp add: generated_def)

lemma stdout_generated:
  "stdout (generated e args w) = stdout w @
     [''Generated: '' @ hostname_of (arg args 3) @ '' -> '' @ arg args 1 @ '':'' @ arg args 2,
      ''Nginx reloaded'']"
  by (simp add: generated_def)

lemma published_conf:
  "published g h text (conf_path NGINX_SITES_AVAILABLE h) = Some (File text)"
  by (simp add: published_def conf_path_distinct)

lemma published_link:
  "published g h text (conf_path NGINX_SITES_ENABLED h)
     = Some (Symlink (conf_path NGINX_SITES_AVAILABLE h))"
  by (simp add: published_def)


lemma initialised_other:
  "p \<notin> set script_dirs \<Longrightarrow> p \<noteq> TEMPLATE_FILE \<Longrightarrow> initialised f p = f p"
  by (simp add: initialised_def)

lemma ready_generated: "ready (fs (generated e args w))"
  by (simp add: fs_generated ready_published)

lemma can_publish_generated:
  "can_publish (fs (generated e args w)) (hostname_of (arg args 3))"
  by (simp add: fs_generated can_publish_published)

lemma can_publish_enabled:
  assumes "f (conf_path NGINX_SITES_AVAILABLE h) = Some (File old)"
    and "f (conf_path NGINX_SITES_ENABLED h) = Some (Symlink (conf_path NGINX_SITES_AVAILABLE h))"
  shows "can_publish f h"
  using assms by (simp add: can_publish_def writable_def)

lemma plain_examples:
  "plain ''aaa111aaa111''" "plain ''bbb222bbb222''" "plain ''abc123''"
  "plain ''10.0.0.5''" "plain ''10.0.0.9''" "plain ''8080''" "plain ''9090''"
  "plain ''web''" "plain ''pwn-101''" "plain ''a;b''"
  "plain ''2026-01-01T00:00:00+00:00''" "plain ''2026-01-01T00:00:01+00:00''"
  by (simp_all add: plain_def sed_value_ok_def)

lemma example_env_simps [simp]:
  "date_Iseconds example_env = ''2026-01-01T00:00:00+00:00''"
  "nginx_t example_env = accept_all"
  "docker_events example_env = []"
  by (simp_all add: example_env_def)

lemma web_enabled_world_simps:
  "fs web_enabled_world = published (initialised Map.empty) ''web.challenges.ctf.com''
      (filled_template ''web.challenges.ctf.com'' ''10.0.0.5'' ''8080'' ''web''
         ''2026-01-01T00:00:00+00:00'' ''aaa111aaa111'')"
  "reloads web_enabled_world = 1" "stdout web_enabled_world = []"
  by (simp_all add: web_enabled_world_def)

lemma ready_web_enabled_world: "ready (fs web_enabled_world)"
  by (simp add: web_enabled_world_simps ready_published)

text \<open>
  C1 (as amended). A \<open>generate\<close> for a host name that is already enabled, for whichever
  instance, does not fail: it overwrites the configuration file with the rendering of the
  new instance and leaves the enabling reference pointing to it (the last writer wins).
  Stated for arguments and a time stamp without \<open>/\<close>, backslash, newline, \<open>&\<close> and \<open>{\<close>.
\<close>

theorem generate_overwrites_enabled_route:
  assumes "ready (fs w)"
    and "plain (arg args 0)" "plain (arg args 1)" "plain (arg args 2)" "plain (arg args 3)"
    and "plain (date_Iseconds e)"
    and "fs w (conf_path NGINX_SITES_AVAILABLE (hostname_of (arg args 3))) = Some (File old)"
    and "fs w (conf_path NGINX_SITES_ENABLED (hostname_of (arg args 3)))
           = Some (Symlink (conf_path NGINX_SITES_AVAILABLE (hostname_of (arg args 3))))"
  shows "\<exists>w'. main e (''generate'' # args) w = Some (0, w')
     \<and> fs w' (conf_path NGINX_SITES_AVAILABLE (hostname_of (arg args 3)))
         = Some (File (filled_template (hostname_of (arg args 3)) (arg args 1) (arg args 2)
                         (arg args 3) (date_Iseconds e) (take 12 (arg args 0))))
     \<and> fs w' (conf_path NGINX_SITES_ENABLED (hostname_of (arg args 3)))
         = Some (Symlink (conf_path NGINX_SITES_AVAILABLE (hostname_of (arg args 3))))"
proof -
  have "main e (''generate'' # args) w = Some (0, generated e args w)"
    using assms(1) can_publish_enabled[OF assms(7,8)] assms(2-6) by (rule main_generate)
  then show ?thesis
    by (simp add: fs_generated published_conf published_link)
qed

theorem generate_overwrites_enabled_route_witness:
  "ready (fs web_enabled_world)
   \<and> plain ''bbb222bbb222'' \<and> plain ''10.0.0.9'' \<and> plain ''9090'' \<and> plain ''web''
   \<and> plain (date_Iseconds example_env)
   \<and> fs web_enabled_world ''/etc/nginx/sites-available/web.challenges.ctf.com.conf''
        = Some (File (filled_template ''web.challenges.ctf.com'' ''10.0.0.5'' ''8080'' ''web''
                  ''2026-01-01T00:00:00+00:00'' ''aaa111aaa111''))
   \<and> fs web_enabled_world ''/etc/nginx/sites-enabled/web.challenges.ctf.com.conf''
        = Some (Symlink ''/etc/nginx/sites-available/web.challenges.ctf.com.conf'')
   \<and> (\<exists>w'. main example_env [''generate'', ''bbb222bbb222'', ''10.0.0.9'', ''9090'', ''web'']
               web_enabled_world = Some (0, w')
         \<and> fs w' ''/etc/nginx/sites-available/web.challenges.ctf.com.conf''
             = Some (File (filled_template ''web.challenges.ctf.com'' ''10.0.0.9'' ''9090'' ''web''
                       ''2026-01-01T00:00:00+00:00'' ''bbb222bbb222''))
         \<and> fs w' ''/etc/nginx/sites-enabled/web.challenges.ctf.com.conf''
             = Some (Symlink ''/etc/nginx/sites-available/web.challenges.ctf.com.conf''))"
proof -
  let ?args = "[''bbb222bbb222'', ''10.0.0.9'', ''9090'', ''web'']"
  have paths: "conf_path NGINX_SITES_AVAILABLE ''web.challenges.ctf.com''
        = ''/etc/nginx/sites-available/web.challenges.ctf.com.conf''"
    "conf_path NGINX_SITES_ENABLED ''web.challenges.ctf.com''
        = ''/etc/nginx/sites-enabled/web.challenges.ctf.com.conf''"
    "hostname_of ''web'' = ''web.challenges.ctf.com''"
    by (simp_all add: conf_path_def hostname_of_def NGINX_SITES_AVAILABLE_def
        NGINX_SITES_ENABLED_def)
  have a: "fs web_enabled_world (conf_path NGINX_SITES_AVAILABLE (hostname_of (arg ?args 3)))
        = Some (File (filled_template ''web.challenges.ctf.com'' ''10.0.0.5'' ''8080'' ''web''
                  ''2026-01-01T00:00:00+00:00'' ''aaa111aaa111''))"
    by (simp add: arg_def web_enabled_world_simps paths(3) published_conf)
  have b: "fs web_enabled_world (conf_path NGINX_SITES_ENABLED (hostname_of (arg ?args 3)))
        = Some (Symlink (conf_path NGINX_SITES_AVAILABLE (hostname_of (arg ?args 3))))"
    by (simp add: arg_def web_enabled_world_simps paths(3) published_link)
  have p: "plain (arg ?args 0)" "plain (arg ?args 1)" "plain (arg ?args 2)" "plain (arg ?args 3)"
    "plain (date_Iseconds example_env)"
    by (simp_all add: arg_def plain_examples)
  from generate_overwrites_enabled_route[OF ready_web_enabled_world p a b] a b p
    ready_web_enabled_world
  show ?thesis
    by (simp add: arg_def paths)
qed

text \<open>
  Counterexample to C1 as stated: \<open>web.challenges.ctf.com\<close> is enabled for the container
  \<open>aaa111aaa111\<close>; a \<open>generate\<close> for another container of the same challenge exits with
  status 0, and the enabled configuration is now the other container's.
\<close>

theorem generate_replaces_other_instance:
  "map_option (apsnd (route_state ''web.challenges.ctf.com''))
     (runs example_env
        [[''generate'', ''aaa111aaa111'', ''10.0.0.5'', ''8080'', ''web''],
         [''generate'', ''bbb222bbb222'', ''10.0.0.9'', ''9090'', ''web'']] empty_world)
   = Some ([0, 0],
       Some (File (filled_template ''web.challenges.ctf.com'' ''10.0.0.9'' ''9090'' ''web''
                     ''2026-01-01T00:00:00+00:00'' ''bbb222bbb222'')),
       Some (Symlink ''/etc/nginx/sites-available/web.challenges.ctf.com.conf''),
       2)
   \<and> filled_template ''web.challenges.ctf.com'' ''10.0.0.9'' ''9090'' ''web''
         ''2026-01-01T00:00:00+00:00'' ''bbb222bbb222'' ! 10
       = ''        proxy_pass http://10.0.0.9:9090/;''"
proof -
  let ?A = "[''aaa111aaa111'', ''10.0.0.5'', ''8080'', ''web'']"
  let ?B = "[''bbb222bbb222'', ''10.0.0.9'', ''9090'', ''web'']"
  let ?wA = "generated example_env ?A empty_world"
  have 1: "main example_env (''generate'' # ?A) empty_world = Some (0, ?wA)"
    by (intro main_generate)
      (simp_all add: arg_def plain_examples empty_world_def ready_empty can_publish_empty)
  have "can_publish (fs ?wA) (hostname_of (arg ?B 3))"
    using can_publish_generated[of example_env ?A empty_world] by (simp add: arg_def)
  then have 2: "main example_env (''generate'' # ?B) ?wA = Some (0, generated example_env ?B ?wA)"
    by (intro main_generate ready_generated) (simp_all add: arg_def plain_examples)
  have "route_state ''web.challenges.ctf.com'' (generated example_env ?B ?wA)
      = (Some (File (filled_template ''web.challenges.ctf.com'' ''10.0.0.9'' ''9090'' ''web''
                     ''2026-01-01T00:00:00+00:00'' ''bbb222bbb222'')),
         Some (Symlink ''/etc/nginx/sites-available/web.challenges.ctf.com.conf''), 2)"
    using published_conf[of _ "''web.challenges.ctf.com''"]
      published_link[of _ "''web.challenges.ctf.com''"]
    by (simp add: route_state_def fs_generated reloads_generated arg_def hostname_of_def
        accept_all_def empty_world_def)
      (simp add: conf_path_def NGINX_SITES_AVAILABLE_def)
  then show ?thesis
    by (simp add: 1 2 filled_template_def)
qed





lemma filled_template_length: "length (filled_template h ip port name ts c) = 40"
  by (simp add: filled_template_def)

lemma filled_template_timestamp:
  "filled_template h ip port name ts2 c
     = (filled_template h ip port name ts1 c)[1 := ''# Generated: '' @ ts2]"
  by (simp add: filled_template_def)

lemma filled_template_line_1: "filled_template h ip port name ts c ! 1 = ''# Generated: '' @ ts"
  by (simp add: filled_template_def)

text \<open>
  C3 (as amended). Two renderings of the same container id, address, port and challenge
  name differ at most in the second line, \<open># Generated: <timestamp>\<close>, which carries the
  clock reading of each call; they are byte-identical exactly when the two clock
  readings are the same.
  Stated for arguments and time stamps without \<open>/\<close>, backslash, newline, \<open>&\<close> and \<open>{\<close>.
\<close>

theorem render_identical_up_to_timestamp:
  assumes "plain cid" "plain ip" "plain port" "plain name" "plain ts1" "plain ts2"
  shows "\<exists>l1 l2. render cid ip port name ts1 template_text = Some l1
     \<and> render cid ip port name ts2 template_text = Some l2
     \<and> l2 = l1[1 := ''# Generated: '' @ ts2]
     \<and> (l1 = l2) = (ts1 = ts2)"
proof -
  let ?l1 = "filled_template (hostname_of name) ip port name ts1 (take 12 cid)"
  let ?l2 = "filled_template (hostname_of name) ip port name ts2 (take 12 cid)"
  have 1: "render cid ip port name ts1 template_text = Some ?l1"
    using assms(1-4) assms(5) by (rule render_plain)
  have 2: "render cid ip port name ts2 template_text = Some ?l2"
    using assms(1-4) assms(6) by (rule render_plain)
  have 3: "?l2 = ?l1[1 := ''# Generated: '' @ ts2]"
    by (rule filled_template_timestamp)
  have "ts1 = ts2" if "?l1 = ?l2"
  proof -
    from that have "?l1 ! 1 = ?l2 ! 1" by (rule arg_cong)
    then show ?thesis unfolding filled_template_line_1 by simp
  qed
  then have 4: "(?l1 = ?l2) = (ts1 = ts2)" by auto
  from 1 2 3 4 show ?thesis by blast
qed

theorem render_identical_up_to_timestamp_witness:
  "plain ''abc123'' \<and> plain ''10.0.0.5'' \<and> plain ''8080'' \<and> plain ''pwn-101''
   \<and> plain ''2026-01-01T00:00:00+00:00'' \<and> plain ''2026-01-01T00:00:01+00:00''
   \<and> (\<exists>l1 l2. render ''abc123'' ''10.0.0.5'' ''8080'' ''pwn-101'' ''2026-01-01T00:00:00+00:00''
                   template_text = Some l1
         \<and> render ''abc123'' ''10.0.0.5'' ''8080'' ''pwn-101'' ''2026-01-01T00:00:01+00:00''
                   template_text = Some l2
         \<and> l2 = l1[1 := ''# Generated: 2026-01-01T00:00:01+00:00'']
         \<and> l1 \<noteq> l2)"
  using render_identical_up_to_timestamp[of "''abc123''" "''10.0.0.5''" "''8080''" "''pwn-101''"
      "''2026-01-01T00:00:00+00:00''" "''2026-01-01T00:00:01+00:00''"]
  by (simp add: plain_examples)

text \<open>
  Counterexample to C3 as stated: the same \<open>generate\<close> call, one second later, writes a
  different configuration file.
\<close>

theorem generate_twice_differs:
  "map_option (fst \<circ> route_state ''pwn-101.challenges.ctf.com'' \<circ> snd)
     (main example_env [''generate'', ''abc123'', ''10.0.0.5'', ''8080'', ''pwn-101''] empty_world)
   \<noteq> map_option (fst \<circ> route_state ''pwn-101.challenges.ctf.com'' \<circ> snd)
     (main (example_env\<lparr>date_Iseconds := ''2026-01-01T00:00:01+00:00''\<rparr>)
        [''generate'', ''abc123'', ''10.0.0.5'', ''8080'', ''pwn-101''] empty_world)"
proof -
  let ?e2 = "example_env\<lparr>date_Iseconds := ''2026-01-01T00:00:01+00:00''\<rparr>"
  let ?A = "[''abc123'', ''10.0.0.5'', ''8080'', ''pwn-101'']"
  have 1: "main example_env (''generate'' # ?A) empty_world
      = Some (0, generated example_env ?A empty_world)"
    by (intro main_generate)
      (simp_all add: arg_def plain_examples empty_world_def ready_empty can_publish_empty)
  have 2: "main ?e2 (''generate'' # ?A) empty_world = Some (0, generated ?e2 ?A empty_world)"
    by (intro main_generate)
      (simp_all add: arg_def plain_examples empty_world_def ready_empty can_publish_empty)
  have "filled_template h ip port name ''2026-01-01T00:00:00+00:00'' c
      \<noteq> filled_template h ip port name ''2026-01-01T00:00:01+00:00'' c" for h ip port name c
    by (simp add: filled_template_def)
  then show ?thesis
    using published_conf[of _ "''pwn-101.challenges.ctf.com''"]
    by (simp add: 1 2 route_state_def fs_generated arg_def hostname_of_def)
qed



section \<open>\<open>generate\<close> for values that sed does not copy unchanged\<close>





section \<open>The server name line\<close>

lemma sed_line_server_name:
  assumes "CHR ''&'' \<notin> set h" and "CHR ''{'' \<notin> set h"
  shows "sed_line [(''{hostname}'', h), (''{container_ip}'', ip), (''{container_port}'', port),
            (''{challenge_name}'', name), (''{timestamp}'', ts), (''{container_id}'', c)]
           ''    server_name {hostname};''
         = ''    server_name '' @ h @ '';''"
proof -
  define l where "l = ''    server_name '' @ h @ '';''"
  have first: "sed_s_g ''{hostname}'' (sed_rhs ''{hostname}'' h) [] ''    server_name {hostname};''
      = l"
    using assms by (simp add: l_def sed_rhs_plain sed_s_g_nobrace)
  have "CHR ''{'' \<notin> set l"
    using assms(2) by (simp add: l_def)
  then have rest: "sed_s_g (CHR ''{'' # p) ins [] l = l" for p ins
    by (rule sed_s_g_nobrace)
  have "sed_line [(''{hostname}'', h), (''{container_ip}'', ip), (''{container_port}'', port),
            (''{challenge_name}'', name), (''{timestamp}'', ts), (''{container_id}'', c)]
           ''    server_name {hostname};'' = l"
    by (simp only: sed_line_def fold_simps case_prod_conv first rest)
  then show ?thesis
    by (simp only: l_def)
qed

text \<open>
  C9 (as amended). The renderer rejects no host name within the reach of the model: for
  every challenge name without \<open>/\<close>, backslash, newline, \<open>&\<close> and \<open>{\<close>, whatever else it
  contains (a semicolon, a closing brace, blanks, quotes), a configuration is produced
  and the raw host name stands in its \<open>server_name\<close> line.
\<close>

theorem render_substitutes_raw_hostname:
  assumes "plain name"
    and "sed_value_ok cid" "sed_value_ok ip" "sed_value_ok port" "sed_value_ok ts"
  shows "\<exists>ls. render cid ip port name ts template_text = Some ls
     \<and> ls ! 6 = ''    server_name '' @ hostname_of name @ '';''"
proof -
  let ?cmds = "sed_commands cid ip port name ts"
  have "sed_value_ok (take 12 cid)"
    using assms(2) unfolding sed_value_ok_def by (rule list_all_take)
  then have ok: "list_all (\<lambda>(pat, rep). sed_value_ok rep) ?cmds"
    using assms(3-5) plain_ok[OF plain_hostname_of[OF assms(1)]] plain_ok[OF assms(1)]
    by (simp add: sed_commands_def)
  have "map (sed_line ?cmds) template_text ! 6 = sed_line ?cmds (template_text ! 6)"
    by (rule nth_map) (simp add: template_text_def)
  also have "template_text ! 6 = ''    server_name {hostname};''"
    by (simp add: template_text_def)
  also have "sed_line ?cmds ''    server_name {hostname};''
      = ''    server_name '' @ hostname_of name @ '';''"
    unfolding sed_commands_def
    by (intro sed_line_server_name plain_amp plain_brace plain_hostname_of assms(1))
  finally show ?thesis
    using ok by (simp add: render_def)
qed

theorem render_substitutes_raw_hostname_witness:
  "plain ''a;b} x'' \<and> sed_value_ok ''abc123'' \<and> sed_value_ok ''10.0.0.5'' \<and> sed_value_ok ''8080''
   \<and> sed_value_ok ''2026-01-01T00:00:00+00:00''
   \<and> (\<exists>ls. render ''abc123'' ''10.0.0.5'' ''8080'' ''a;b} x'' ''2026-01-01T00:00:00+00:00''
               template_text = Some ls
         \<and> ls ! 6 = ''    server_name a;b} x.challenges.ctf.com;'')"
proof -
  have h: "plain ''a;b} x''" "sed_value_ok ''abc123''" "sed_value_ok ''10.0.0.5''"
    "sed_value_ok ''8080''" "sed_value_ok ''2026-01-01T00:00:00+00:00''"
    by (simp_all add: plain_def sed_value_ok_def)
  from render_substitutes_raw_hostname[OF h] h show ?thesis
    by (simp add: hostname_of_def)
qed

text \<open>
  Counterexample to C9 as stated: the challenge name \<open>a;b\<close> gives a host name with a
  semicolon, which ends an nginx directive. \<open>generate\<close> exits with status 0 and the
  configuration file is written with the raw value in it.
\<close>

theorem generate_accepts_semicolon_hostname:
  "map_option (apsnd (fst \<circ> route_state ''a;b.challenges.ctf.com''))
     (main example_env [''generate'', ''abc123'', ''10.0.0.5'', ''8080'', ''a;b''] empty_world)
   = Some (0, Some (File (filled_template ''a;b.challenges.ctf.com'' ''10.0.0.5'' ''8080'' ''a;b''
                            ''2026-01-01T00:00:00+00:00'' ''abc123'')))
   \<and> filled_template ''a;b.challenges.ctf.com'' ''10.0.0.5'' ''8080'' ''a;b''
         ''2026-01-01T00:00:00+00:00'' ''abc123'' ! 6
       = ''    server_name a;b.challenges.ctf.com;''"
proof -
  let ?A = "[''abc123'', ''10.0.0.5'', ''8080'', ''a;b'']"
  have "main example_env (''generate'' # ?A) empty_world
      = Some (0, generated example_env ?A empty_world)"
    by (intro main_generate)
      (simp_all add: arg_def plain_examples empty_world_def ready_empty can_publish_empty)
  then show ?thesis
    using published_conf[of _ "''a;b.challenges.ctf.com''"]
    by (simp add: route_state_def fs_generated arg_def hostname_of_def filled_template_def)
qed

section \<open>The watcher and the sweep\<close>

text \<open>
  \<open>get_container_info\<close> and \<open>get_hostname_from_container\<close> print nothing, so no branch of
  \<open>handle_container_event\<close> acts: an event, and a whole stream of events, leaves the world
  as it was.
\<close>

lemma handle_container_event_stub:
  "handle_container_event e action container_id w = Some w
   \<and> watch_loop e evs w = Some w"
proof -
  have 1: "handle_container_event e a c v = Some v" for a c v
    by (simp add: handle_container_event_def get_container_info_def
        get_hostname_from_container_def)
  have "watch_loop e evs w = Some w"
    by (induction evs) (auto simp: 1)
  with 1 show ?thesis by simp
qed

text \<open>
  C6, at the input of its scenario. The claim expects that after the runtime's event
  \<open>start abc123\<close> (container at 10.0.0.5:8080, challenge \<open>pwn-101\<close>) the configuration file
  and the enabling reference for \<open>pwn-101.challenges.ctf.com\<close> exist and one reload has
  been triggered, which is what the \<open>start\<close> branch is written to do through
  \<open>generate_for_container\<close> and \<open>reload_nginx\<close>. The script run as \<open>watch\<close> on that event
  ends with neither file on disk and no reload, because the lookup of the container's
  address prints nothing.
\<close>

theorem start_event_publishes_nothing:
  "map_option (apsnd (route_state ''pwn-101.challenges.ctf.com''))
     (main (example_env\<lparr>docker_events := [(''start'', ''abc123'')]\<rparr>) [''watch''] empty_world)
   = Some (0, None, None, 0)"
proof -
  let ?e = "example_env\<lparr>docker_events := [(''start'', ''abc123'')]\<rparr>"
  have "main ?e [''watch''] empty_world
      = dispatch ?e [''watch''] (empty_world\<lparr>fs := initialised (fs empty_world)\<rparr>)"
    by (rule main_ready) (simp add: empty_world_def ready_empty)
  also have "\<dots> = Some (0, empty_world\<lparr>fs := initialised (fs empty_world)\<rparr>)"
    by (simp add: dispatch_def arg_def watch_docker_events_def handle_container_event_def
        get_container_info_def)
  finally show ?thesis
    by (simp add: route_state_def initialised_other conf_path_distinct empty_world_def)
qed

text \<open>
  C5 (as amended). The \<open>sync\<close> command retracts nothing and exits with status 0: it
  prints its two messages, and every file, link and directory that existed before the
  command (the template apart, which every run rewrites) is there unchanged afterwards,
  whatever containers are running.
\<close>

theorem sync_retracts_nothing:
  assumes "ready (fs w)"
  shows "\<exists>w'. main e [''sync''] w = Some (0, w')
     \<and> stdout w' = stdout w @ [''Syncing all challenge containers...'', ''Sync complete'']
     \<and> (\<forall>p. fs w p \<noteq> None \<longrightarrow> p \<noteq> TEMPLATE_FILE \<longrightarrow> fs w' p = fs w p)"
proof -
  let ?w' = "sync_all_containers (w\<lparr>fs := initialised (fs w)\<rparr>)"
  have "main e [''sync''] w = Some (0, ?w')"
    by (simp add: main_ready[OF assms] dispatch_def arg_def)
  moreover have
    "stdout ?w' = stdout w @ [''Syncing all challenge containers...'', ''Sync complete'']"
    by (simp add: sync_all_containers_def)
  moreover have "fs ?w' p = fs w p" if "fs w p \<noteq> None" "p \<noteq> TEMPLATE_FILE" for p
  proof (cases "p \<in> set script_dirs")
    case True
    with assms have "fs w p = None \<or> fs w p = Some Dir"
      by (simp add: ready_def list_all_iff)
    with that have "fs w p = Some Dir"
      by auto
    with True show ?thesis
      by (simp add: sync_all_containers_def initialised_def)
  next
    case False
    with that show ?thesis
      by (simp add: sync_all_containers_def initialised_def)
  qed
  ultimately show ?thesis by blast
qed

theorem sync_retracts_nothing_witness:
  "ready (fs web_enabled_world)
   \<and> (\<exists>w'. main example_env [''sync''] web_enabled_world = Some (0, w')
         \<and> stdout w' = [''Syncing all challenge containers...'', ''Sync complete'']
         \<and> fs w' (conf_path NGINX_SITES_ENABLED ''web.challenges.ctf.com'')
             = Some (Symlink (conf_path NGINX_SITES_AVAILABLE ''web.challenges.ctf.com'')))"
proof -
  have l: "fs web_enabled_world (conf_path NGINX_SITES_ENABLED ''web.challenges.ctf.com'')
      = Some (Symlink (conf_path NGINX_SITES_AVAILABLE ''web.challenges.ctf.com''))"
    by (simp add: web_enabled_world_simps published_link)
  from sync_retracts_nothing[OF ready_web_enabled_world, of example_env]
  obtain w' where w': "main example_env [''sync''] web_enabled_world = Some (0, w')"
    "stdout w' = stdout web_enabled_world
       @ [''Syncing all challenge containers...'', ''Sync complete'']"
    "\<forall>p. fs web_enabled_world p \<noteq> None \<longrightarrow> p \<noteq> TEMPLATE_FILE \<longrightarrow>
       fs w' p = fs web_enabled_world p"
    by blast
  from w'(3) l conf_path_distinct(4)[of "''web.challenges.ctf.com''"]
  have "fs w' (conf_path NGINX_SITES_ENABLED ''web.challenges.ctf.com'')
      = Some (Symlink (conf_path NGINX_SITES_AVAILABLE ''web.challenges.ctf.com''))"
    by simp
  with w'(1,2) ready_web_enabled_world show ?thesis
    by (simp add: web_enabled_world_simps)
qed

text \<open>
  Counterexample to C5 as stated: \<open>web.challenges.ctf.com\<close> is published; the result of
  \<open>sync\<close> does not depend on the containers that are running, so also when none is running
  the route is still there afterwards, and the status is 0.
\<close>

theorem sync_leaves_stale_route:
  "map_option (apsnd (route_state ''web.challenges.ctf.com''))
     (main example_env [''sync''] web_enabled_world)
   = Some (0,
       Some (File (filled_template ''web.challenges.ctf.com'' ''10.0.0.5'' ''8080'' ''web''
                     ''2026-01-01T00:00:00+00:00'' ''aaa111aaa111'')),
       Some (Symlink ''/etc/nginx/sites-available/web.challenges.ctf.com.conf''),
       1)"
proof -
  have "main example_env [''sync''] web_enabled_world
      = Some (0, sync_all_containers (web_enabled_world\<lparr>fs := initialised (fs web_enabled_world)\<rparr>))"
    by (simp add: main_ready[OF ready_web_enabled_world] dispatch_def arg_def)
  then show ?thesis
    using published_conf[of _ "''web.challenges.ctf.com''"]
      published_link[of _ "''web.challenges.ctf.com''"]
    by (simp add: route_state_def sync_all_containers_def initialised_other conf_path_distinct
        web_enabled_world_simps)
      (simp add: conf_path_def NGINX_SITES_AVAILABLE_def)
qed

section \<open>The frames of the terminal drawer\<close>

lemma resize_json_example:
  "resize_json 80 24 = ''{'' @ [CHR 0x22] @ ''type'' @ [CHR 0x22] @ '':'' @ [CHR 0x22]
     @ ''resize'' @ [CHR 0x22] @ '','' @ [CHR 0x22] @ ''cols'' @ [CHR 0x22] @ '':80,''
     @ [CHR 0x22] @ ''rows'' @ [CHR 0x22] @ '':24}''"
  by code_simp

text \<open>
  C8 (as amended). Every frame the client sends is a text frame: the keystrokes that the
  terminal reports are passed to \<open>send\<close> as a string and leave as one text frame with the
  keystrokes as payload, and a resize (on open, and on a window resize while the socket is
  open) leaves as a text frame with the JSON text \<open>{"type":"resize","cols":c,"rows":r}\<close>.
  On the way in, the client writes the payload of a binary frame to the terminal as
  container output, writes a text frame that is not JSON to the terminal as it is, and
  prints a text frame whose JSON has type \<open>error\<close> as an error line with its message.
\<close>

theorem client_frames_are_text:
  "list_all is_text (onData readyState data @ onopen cols rows @ handleResize ws cols rows)
   \<and> onData OPEN data = [TextFrame data]
   \<and> onopen cols rows = [TextFrame (resize_json cols rows)]
   \<and> handleResize (Some OPEN) cols rows = [TextFrame (resize_json cols rows)]
   \<and> onmessage JSON_parse to_string (BinaryFrame output) = [Write output]
   \<and> onmessage (\<lambda>s. None) to_string (TextFrame t) = [Write t]
   \<and> onmessage (\<lambda>s. Some (JObject [(''type'', JString ''error''), (''message'', JString m)]))
         to_string (TextFrame t)
       = [Writeln ([CHR 0x1B] @ ''[31mError: '' @ m @ [CHR 0x1B] @ ''[0m'')]"
  by (simp add: onData_def onopen_def handleResize_def onmessage_def)

text \<open>
  Counterexample to C8 as stated: on an open socket the keystrokes \<open>ls\<close> leave the client
  as a text frame, not as a binary frame.
\<close>

theorem keystrokes_leave_as_text_frame:
  "onData OPEN ''ls'' = [TextFrame ''ls''] \<and> \<not> is_binary (TextFrame ''ls'')"
  by (simp add: onData_def)

end
